theory Spec2Isabelle
  imports Complex_Main
begin

section \<open>Values, arrays and failures\<close>

text \<open>
  The toolkit of \<^verbatim>\<open>intro-course/week-2/risk_toolkit.py\<close> computes on numpy arrays of
  floats. A one-dimensional array is a list of reals, a two-dimensional array the list of
  its rows. Arithmetic on floats is idealised as arithmetic on reals; what is kept of the
  floating-point format are its special values, because the code can produce them: numpy
  gives \<open>nan\<close> for a fractional power of a negative number and \<open>nan\<close> or an infinity for a
  division by zero, each with a warning and no exception.
\<close>

type_synonym vec = "real list"
type_synonym mat = "real list list"

datatype fval = Num real | PosInf | NegInf | NaN

text \<open>
  The exceptions the modelled code can raise. \<open>ValueError\<close> carries its message: the
  toolkit raises one of its own in \<open>plot_ef2\<close>, numpy raises others (a matrix product of
  operands that do not fit, a reduction of an empty array, a negative sample count).
  \<open>ZeroDivisionError\<close> is Python's, raised by \<open>1/n\<close> on the integer \<open>n = 0\<close>.
  The messages of numpy are shortened; each keeps the words that tell it from the others.
\<close>

datatype error = ValueError string | ZeroDivisionError

definition matmul_mismatch :: string where
  "matmul_mismatch = ''matmul: Input operand 1 has a mismatch in its core dimension 0''"

definition empty_reduction :: string where
  "empty_reduction = ''zero-size array to reduction operation which has no identity''"

definition negative_samples :: string where
  "negative_samples = ''Number of samples must be non-negative.''"

definition only_two_assets :: string where
  "only_two_assets = ''plot_ef2 can only plot 2-asset frontiers''"

subsection \<open>The matrix product of numpy, on the shapes the toolkit uses\<close>

text \<open>\<open>shape[0]\<close> and \<open>shape[1]\<close> of a two-dimensional array.\<close>

definition nrows :: "mat \<Rightarrow> nat" where
  "nrows C = length C"

definition ncols :: "mat \<Rightarrow> nat" where
  "ncols C = (case C of [] \<Rightarrow> 0 | r # _ \<Rightarrow> length r)"

text \<open>A list of rows is a numpy array of shape \<open>(r, c)\<close> when every row has length \<open>c\<close>.\<close>

definition has_shape :: "nat \<Rightarrow> nat \<Rightarrow> mat \<Rightarrow> bool" where
  "has_shape r c C = (length C = r \<and> list_all (\<lambda>row. length row = c) C)"

definition inner :: "vec \<Rightarrow> vec \<Rightarrow> real" where
  "inner u v = sum_list (map2 (*) u v)"

definition column :: "mat \<Rightarrow> nat \<Rightarrow> vec" where
  "column C j = map (\<lambda>row. row ! j) C"

text \<open>\<open>u @ v\<close> for two one-dimensional arrays: a scalar, or a \<open>ValueError\<close>.\<close>

definition dot :: "vec \<Rightarrow> vec \<Rightarrow> error + real" where
  "dot u v = (if length u \<noteq> length v then Inl (ValueError matmul_mismatch)
              else Inr (inner u v))"

text \<open>\<open>w @ C\<close> for a one-dimensional \<open>w\<close> and a two-dimensional \<open>C\<close>: the vector of the
  products of \<open>w\<close> with the columns of \<open>C\<close>, or a \<open>ValueError\<close>.\<close>

definition vecmat :: "vec \<Rightarrow> mat \<Rightarrow> error + vec" where
  "vecmat w C = (if length w \<noteq> nrows C then Inl (ValueError matmul_mismatch)
                 else Inr (map (\<lambda>j. inner w (column C j)) [0..<ncols C]))"

text \<open>\<open>q ** 0.5\<close> on a numpy float: \<open>nan\<close> below zero, the square root otherwise.\<close>

definition pow_half :: "real \<Rightarrow> fval" where
  "pow_half q = (if q < 0 then NaN else Num (sqrt q))"

text \<open>\<open>a / v\<close> on numpy floats, \<open>a\<close> finite: no exception at \<open>v = 0\<close>.\<close>

fun fdiv :: "real \<Rightarrow> fval \<Rightarrow> fval" where
  "fdiv a (Num v) =
     (if v = 0 then (if 0 < a then PosInf else if a < 0 then NegInf else NaN)
      else Num (a / v))"
| "fdiv a PosInf = Num 0"
| "fdiv a NegInf = Num 0"
| "fdiv a NaN = NaN"

section \<open>Portfolio metrics\<close>

text \<open>\<^verbatim>\<open>def portfolio_return(weights, returns): return weights.T @ returns\<close>\<close>

definition portfolio_return :: "vec \<Rightarrow> vec \<Rightarrow> error + real" where
  "portfolio_return weights returns = dot weights returns"

text \<open>
  \<^verbatim>\<open>def portfolio_vol(weights, covmat): return (weights.T @ covmat @ weights)**0.5\<close>

  The product associates to the left; \<open>radicand\<close> is the operand of the power.
\<close>

definition radicand :: "vec \<Rightarrow> mat \<Rightarrow> error + real" where
  "radicand weights covmat =
     (case vecmat weights covmat of
        Inl e \<Rightarrow> Inl e
      | Inr t \<Rightarrow> dot t weights)"

definition portfolio_vol :: "vec \<Rightarrow> mat \<Rightarrow> error + fval" where
  "portfolio_vol weights covmat =
     (case radicand weights covmat of
        Inl e \<Rightarrow> Inl e
      | Inr q \<Rightarrow> Inr (pow_half q))"



section \<open>The solver\<close>

text \<open>
  \<open>scipy.optimize.minimize\<close> is not code of the toolkit. It is a parameter of the model:
  a function from the problem it is given (objective, initial guess, bounds and
  constraints, with the arguments of \<open>args\<close> already bound) to an \<open>OptimizeResult\<close>, or to
  an exception when one is raised inside the call, for instance by the objective.
  Of the result the toolkit reads the field \<open>x\<close> only; \<open>success\<close> and \<open>message\<close> are the
  fields by which scipy reports that the search did not converge.
\<close>

record constraint =
  ctype :: string
  cfun :: "vec \<Rightarrow> error + real"

record problem =
  objective :: "vec \<Rightarrow> error + fval"
  x0 :: vec
  slv_method :: string
  disp :: bool
  constraints :: "constraint list"
  bounds :: "(real \<times> real) list"

record opt_result =
  res_x :: vec
  success :: bool
  message :: string

type_synonym solver = "problem \<Rightarrow> error + opt_result"

text \<open>
  Two outcomes a solver can have, used as concrete inputs below. The first stops at
  once and reports failure, leaving the initial guess in \<open>x\<close> (what SLSQP reports with
  exit mode 4 when the linearised constraints have no solution within the bounds). The
  second evaluates the objective at the initial guess before anything else, as scipy
  does, so that an exception of the objective leaves the call.
\<close>

definition no_progress :: solver where
  "no_progress p =
     Inr \<lparr>res_x = x0 p, success = False,
          message = ''Inequality constraints incompatible''\<rparr>"

definition evaluate_first :: solver where
  "evaluate_first p =
     (case objective p (x0 p) of
        Inl e \<Rightarrow> Inl e
      | Inr _ \<Rightarrow> no_progress p)"

text \<open>A solver propagates an exception raised by the objective at the initial guess.\<close>

definition propagates :: "solver \<Rightarrow> bool" where
  "propagates minimize =
     (\<forall>p e. objective p (x0 p) = Inl e \<longrightarrow> minimize p = Inl e)"

text \<open>A point meets a problem within \<open>tol\<close>: it lies within the bounds and every
  equality constraint evaluates to a number of absolute value at most \<open>tol\<close>.\<close>

definition feasible :: "real \<Rightarrow> problem \<Rightarrow> vec \<Rightarrow> bool" where
  "feasible tol p w =
     (list_all2 (\<lambda>b a. fst b \<le> a \<and> a \<le> snd b) (bounds p) w \<and>
      list_all (\<lambda>c. case cfun c w of Inl _ \<Rightarrow> False | Inr v \<Rightarrow> \<bar>v\<bar> \<le> tol)
        (constraints p))"

text \<open>
  What the solver promises of a result it reports as converged: within \<open>tol\<close> the
  result meets the problem the solver was given, whichever problem that is.
\<close>

definition honours :: "real \<Rightarrow> solver \<Rightarrow> bool" where
  "honours tol minimize =
     (\<forall>p r. minimize p = Inr r \<and> success r \<longrightarrow> feasible tol p (res_x r))"

text \<open>A third outcome: the solver tests the initial guess against the problem and
  stops there, reporting success when the guess meets it (what SLSQP does when it is
  started at the solution).\<close>

definition stop_at_guess :: "real \<Rightarrow> solver" where
  "stop_at_guess tol p =
     Inr \<lparr>res_x = x0 p, success = feasible tol p (x0 p),
          message = (if feasible tol p (x0 p) then ''Optimization terminated successfully''
                     else ''Inequality constraints incompatible'')\<rparr>"

section \<open>Minimum volatility for a target return\<close>

text \<open>
  \<^verbatim>\<open>
  def minimize_vol(target_return, er, cov):
      n = er.shape[0]
      init_guess = np.repeat(1/n, n)
      bounds = ((0.0, 1.0),) * n
      return_is_target = {'type': 'eq', 'args': (er,),
          'fun': lambda weights, er: target_return - portfolio_return(weights, er)}
      weights_sum_to_1 = {'type': 'eq', 'fun': lambda weights: np.sum(weights) - 1}
      results = minimize(portfolio_vol, init_guess, args=(cov,), method='SLSQP',
          options={'disp': False}, constraints=(return_is_target, weights_sum_to_1),
          bounds=bounds)
      return results.x
  \<close>
  \<open>1/n\<close> divides Python integers and raises \<open>ZeroDivisionError\<close> at \<open>n = 0\<close>.
  \<open>minvol_problem\<close> is the argument list of the call of \<open>minimize\<close>.
\<close>

definition weights_sum_to_1 :: constraint where
  "weights_sum_to_1 = \<lparr>ctype = ''eq'', cfun = (\<lambda>weights. Inr (sum_list weights - 1))\<rparr>"

definition return_is_target :: "real \<Rightarrow> vec \<Rightarrow> constraint" where
  "return_is_target target_return er =
     \<lparr>ctype = ''eq'',
      cfun = (\<lambda>weights. case portfolio_return weights er of
                           Inl e \<Rightarrow> Inl e
                         | Inr r \<Rightarrow> Inr (target_return - r))\<rparr>"

definition minvol_problem :: "real \<Rightarrow> vec \<Rightarrow> mat \<Rightarrow> problem" where
  "minvol_problem target_return er cov =
     (let n = length er;
          init_guess = replicate n (1 / real n)
      in \<lparr>objective = (\<lambda>weights. portfolio_vol weights cov),
          x0 = init_guess,
          slv_method = ''SLSQP'',
          disp = False,
          constraints = [return_is_target target_return er, weights_sum_to_1],
          bounds = replicate n (0, 1)\<rparr>)"

definition minimize_vol :: "solver \<Rightarrow> real \<Rightarrow> vec \<Rightarrow> mat \<Rightarrow> error + vec" where
  "minimize_vol minimize target_return er cov =
     (if length er = 0 then Inl ZeroDivisionError
      else case minimize (minvol_problem target_return er cov) of
             Inl e \<Rightarrow> Inl e
           | Inr results \<Rightarrow> Inr (res_x results))"

section \<open>Maximum Sharpe ratio and global minimum variance\<close>

text \<open>
  \<^verbatim>\<open>
  def msr(riskfree_rate, er, cov):
      n = er.shape[0]
      init_guess = np.repeat(1/n, n)
      bounds = ((0.0, 1.0),) * n
      weights_sum_to_1 = {'type': 'eq', 'fun': lambda weights: np.sum(weights) - 1}
      def neg_sharpe_ratio(weights, riskfree_rate, er, cov):
          r = portfolio_return(weights, er)
          vol = portfolio_vol(weights, cov)
          return -(r - riskfree_rate)/vol
      results = minimize(neg_sharpe_ratio, init_guess, args=(riskfree_rate, er, cov),
          method='SLSQP', options={'disp': False}, constraints=(weights_sum_to_1),
          bounds=bounds)
      return results.x
  \<close>
\<close>

definition neg_sharpe_ratio :: "vec \<Rightarrow> real \<Rightarrow> vec \<Rightarrow> mat \<Rightarrow> error + fval" where
  "neg_sharpe_ratio weights riskfree_rate er cov =
     (case portfolio_return weights er of
        Inl e \<Rightarrow> Inl e
      | Inr r \<Rightarrow>
          (case portfolio_vol weights cov of
             Inl e \<Rightarrow> Inl e
           | Inr vol \<Rightarrow> Inr (fdiv (- (r - riskfree_rate)) vol)))"

definition msr_problem :: "real \<Rightarrow> vec \<Rightarrow> mat \<Rightarrow> problem" where
  "msr_problem riskfree_rate er cov =
     (let n = length er;
          init_guess = replicate n (1 / real n)
      in \<lparr>objective = (\<lambda>weights. neg_sharpe_ratio weights riskfree_rate er cov),
          x0 = init_guess,
          slv_method = ''SLSQP'',
          disp = False,
          constraints = [weights_sum_to_1],
          bounds = replicate n (0, 1)\<rparr>)"

definition msr :: "solver \<Rightarrow> real \<Rightarrow> vec \<Rightarrow> mat \<Rightarrow> error + vec" where
  "msr minimize riskfree_rate er cov =
     (if length er = 0 then Inl ZeroDivisionError
      else case minimize (msr_problem riskfree_rate er cov) of
             Inl e \<Rightarrow> Inl e
           | Inr results \<Rightarrow> Inr (res_x results))"

text \<open>
  \<^verbatim>\<open>
  def gmv(cov):
      n = cov.shape[0]
      return msr(0, np.repeat(1, n), cov)
  \<close>
\<close>

definition gmv :: "solver \<Rightarrow> mat \<Rightarrow> error + vec" where
  "gmv minimize cov = (let n = nrows cov in msr minimize 0 (replicate n 1) cov)"

section \<open>The efficient frontier\<close>

text \<open>
  \<open>er.min()\<close> and \<open>er.max()\<close> raise on an empty array. \<open>np.linspace(start, stop, num)\<close>
  raises on a negative count; otherwise it returns \<open>num\<close> samples \<open>start + i * step\<close>
  with \<open>step = (stop - start) / (num - 1)\<close>, the last one overwritten with \<open>stop\<close> when
  \<open>num > 1\<close>.
\<close>

definition amin :: "vec \<Rightarrow> error + real" where
  "amin er = (case er of [] \<Rightarrow> Inl (ValueError empty_reduction)
              | a # as \<Rightarrow> Inr (fold min as a))"

definition amax :: "vec \<Rightarrow> error + real" where
  "amax er = (case er of [] \<Rightarrow> Inl (ValueError empty_reduction)
              | a # as \<Rightarrow> Inr (fold max as a))"

definition linspace :: "real \<Rightarrow> real \<Rightarrow> int \<Rightarrow> error + vec" where
  "linspace start stop num =
     (if num < 0 then Inl (ValueError negative_samples)
      else let dv = num - 1;
               delta = stop - start;
               sample = (\<lambda>i. if 1 < num \<and> int i = num - 1 then stop
                              else if 0 < dv then start + real i * (delta / real_of_int dv)
                              else start + real i * delta)
           in Inr (map sample [0..<nat num]))"

text \<open>The samples in the words of the specification: \<open>n\<close> values evenly spaced from
  \<open>a\<close> to \<open>b\<close>, both included.\<close>

definition samples :: "real \<Rightarrow> real \<Rightarrow> nat \<Rightarrow> vec" where
  "samples a b n = map (\<lambda>i. a + real i * ((b - a) / real (n - 1))) [0..<n]"

text \<open>
  The span \<open>hi - lo\<close> of two doubles is zero or an ordinary double: below the largest
  double, so that the difference does not overflow to an infinity, and well above the
  denormal range, so that a step of the span keeps its precision. (The two powers are
  bounds that are safe and simple.)
\<close>

definition finite_span :: "real \<Rightarrow> real \<Rightarrow> bool" where
  "finite_span lo hi = (hi - lo < 2 ^ 1023 \<and> (hi - lo = 0 \<or> 1 / 2 ^ 900 \<le> hi - lo))"

text \<open>A list comprehension whose body can raise: the first exception ends it.\<close>

primrec collect :: "('a \<Rightarrow> error + 'b) \<Rightarrow> 'a list \<Rightarrow> error + 'b list" where
  "collect f [] = Inr []"
| "collect f (a # as) =
     (case f a of
        Inl e \<Rightarrow> Inl e
      | Inr b \<Rightarrow> (case collect f as of Inl e \<Rightarrow> Inl e | Inr bs \<Rightarrow> Inr (b # bs)))"

text \<open>
  \<^verbatim>\<open>
  def optimal_weights(er, cov, n_points=25):
      target_rs = np.linspace(er.min(), er.max(), n_points)
      weights = [minimize_vol(target_return, er, cov) for target_return in target_rs]
      return weights
  \<close>
\<close>

definition target_rs :: "vec \<Rightarrow> int \<Rightarrow> error + vec" where
  "target_rs er n_points =
     (case amin er of
        Inl e \<Rightarrow> Inl e
      | Inr lo \<Rightarrow> (case amax er of Inl e \<Rightarrow> Inl e | Inr hi \<Rightarrow> linspace lo hi n_points))"

definition optimal_weights :: "solver \<Rightarrow> vec \<Rightarrow> mat \<Rightarrow> int \<Rightarrow> error + vec list" where
  "optimal_weights minimize er cov n_points =
     (case target_rs er n_points of
        Inl e \<Rightarrow> Inl e
      | Inr ts \<Rightarrow> collect (\<lambda>target_return. minimize_vol minimize target_return er cov) ts)"

text \<open>
  The data frame built by \<open>plot_ef\<close> and \<open>plot_ef2\<close>, one row per frontier point.
  Drawing it is outside the model: both functions are modelled up to the frame they
  hand to the plotting call, \<open>plot_ef\<close> with its markers (\<open>show_cml\<close>, \<open>show_ew\<close>,
  \<open>show_gmv\<close>) left at their default, off.
  \<^verbatim>\<open>
  def plot_ef(er, cov, n_points=25, ...):
      weights = optimal_weights(er, cov, n_points=n_points)
      rets = [portfolio_return(w, er) for w in weights]
      vols = [portfolio_vol(w, cov) for w in weights]
      ef = pd.DataFrame({"Returns": rets, "Volatility": vols})
  \<close>
\<close>

record frame =
  Returns :: "real list"
  Volatility :: "fval list"

definition plot_ef :: "solver \<Rightarrow> vec \<Rightarrow> mat \<Rightarrow> int \<Rightarrow> error + frame" where
  "plot_ef minimize er cov n_points =
     (case optimal_weights minimize er cov n_points of
        Inl e \<Rightarrow> Inl e
      | Inr weights \<Rightarrow>
          (case collect (\<lambda>w. portfolio_return w er) weights of
             Inl e \<Rightarrow> Inl e
           | Inr rets \<Rightarrow>
               (case collect (\<lambda>w. portfolio_vol w cov) weights of
                  Inl e \<Rightarrow> Inl e
                | Inr vols \<Rightarrow> Inr \<lparr>Returns = rets, Volatility = vols\<rparr>)))"

text \<open>
  \<^verbatim>\<open>
  def plot_ef2(er, cov, n_points=25, style='.-'):
      if er.shape[0] != 2 or er.shape[0] != 2:
          raise ValueError("plot_ef2 can only plot 2-asset frontiers")
      weights = [np.array([w, 1-w]) for w in np.linspace(0,1,n_points)]
      rets = [portfolio_return(w, er) for w in weights]
      vols = [portfolio_vol(w, cov) for w in weights]
      ef = pd.DataFrame({"Returns": rets, "Volatility": vols})
  \<close>
\<close>

definition plot_ef2 :: "vec \<Rightarrow> mat \<Rightarrow> int \<Rightarrow> error + frame" where
  "plot_ef2 er cov n_points =
     (if length er \<noteq> 2 \<or> length er \<noteq> 2 then Inl (ValueError only_two_assets)
      else case linspace 0 1 n_points of
             Inl e \<Rightarrow> Inl e
           | Inr ws \<Rightarrow>
               (let weights = map (\<lambda>w. [w, 1 - w]) ws
                in case collect (\<lambda>w. portfolio_return w er) weights of
                     Inl e \<Rightarrow> Inl e
                   | Inr rets \<Rightarrow>
                       (case collect (\<lambda>w. portfolio_vol w cov) weights of
                          Inl e \<Rightarrow> Inl e
                        | Inr vols \<Rightarrow> Inr \<lparr>Returns = rets, Volatility = vols\<rparr>)))"

section \<open>Properties of the matrix product\<close>

lemma ncols_has_shape: "has_shape r c C \<Longrightarrow> 0 < r \<Longrightarrow> ncols C = c"
  by (cases C) (auto simp: has_shape_def ncols_def)

lemma radicand_fits:
  assumes "length w = n" and "has_shape n n C"
  shows "\<exists>q. radicand w C = Inr q"
proof (cases "n = 0")
  case True
  with assms show ?thesis
    by (simp add: radicand_def vecmat_def dot_def nrows_def ncols_def has_shape_def)
next
  case False
  with assms have "ncols C = n" by (simp add: ncols_has_shape)
  with assms show ?thesis
    by (simp add: radicand_def vecmat_def dot_def nrows_def has_shape_def)
qed

lemma portfolio_vol_fails_in_matmul:
  "portfolio_vol w C = Inl e \<Longrightarrow> e = ValueError matmul_mismatch"
  by (auto simp: portfolio_vol_def radicand_def vecmat_def dot_def
      split: if_splits sum.splits)


section \<open>Volatility\<close>

text \<open>
  Claim C2, as the code has it. \<open>portfolio_vol\<close> has no failure of its own for the
  radicand: on weights and a square matrix that fit it raises nothing, whatever the
  sign of the radicand, and returns the value numpy's power gives. The one failure it
  has is the \<open>ValueError\<close> of the matrix product.
\<close>

theorem portfolio_vol_raises_no_numerical_error:
  "(length w = n \<and> has_shape n n C \<longrightarrow> (\<exists>v. portfolio_vol w C = Inr v)) \<and>
   (\<forall>e. portfolio_vol w C = Inl e \<longrightarrow> e = ValueError matmul_mismatch)"
proof -
  have "\<exists>v. portfolio_vol w C = Inr v" if "length w = n" "has_shape n n C"
    using radicand_fits [OF that] by (auto simp: portfolio_vol_def)
  then show ?thesis using portfolio_vol_fails_in_matmul by blast
qed

theorem portfolio_vol_raises_no_numerical_error_witness:
  "length [1::real] = 1 \<and> has_shape 1 1 [[-1]] \<and>
   radicand [1] [[-1]] = Inr (-1) \<and> portfolio_vol [1] [[-1]] = Inr NaN \<and>
   portfolio_vol [1, 1] [[-1]] = Inl (ValueError matmul_mismatch)"
proof -
  have r: "radicand [1] [[-1]] = Inr (-1)"
    by (simp add: radicand_def vecmat_def dot_def nrows_def ncols_def column_def inner_def)
  have m: "portfolio_vol [1, 1] [[-1]] = Inl (ValueError matmul_mismatch)"
    by (simp add: portfolio_vol_def radicand_def vecmat_def nrows_def)
  from portfolio_vol_raises_no_numerical_error [of "[1]" 1 "[[-1]]"]
    portfolio_vol_raises_no_numerical_error [of "[1, 1]" 1 "[[-1]]"] r m
  show ?thesis by (simp add: has_shape_def portfolio_vol_def pow_half_def)
qed

text \<open>Claim C2 as stated asks for a failure at a negative radicand. The weight \<open>[1]\<close> on
  the matrix \<open>[[-1]]\<close> has radicand \<open>-1\<close>, and the call returns \<open>nan\<close>.\<close>

theorem portfolio_vol_numerical_error_counterexample:
  "portfolio_vol [1] [[-1]] = Inr NaN"
  by (simp add: portfolio_vol_def radicand_def vecmat_def dot_def nrows_def ncols_def
      column_def inner_def pow_half_def)




section \<open>What the solvers return\<close>

lemma minvol_problem_fields:
  "objective (minvol_problem t er cov) = (\<lambda>weights. portfolio_vol weights cov)"
  "x0 (minvol_problem t er cov) = replicate (length er) (1 / real (length er))"
  "constraints (minvol_problem t er cov) = [return_is_target t er, weights_sum_to_1]"
  "bounds (minvol_problem t er cov) = replicate (length er) (0, 1)"
  by (simp_all add: minvol_problem_def Let_def)

lemma msr_problem_fields:
  "objective (msr_problem rf er cov) = (\<lambda>weights. neg_sharpe_ratio weights rf er cov)"
  "x0 (msr_problem rf er cov) = replicate (length er) (1 / real (length er))"
  "constraints (msr_problem rf er cov) = [weights_sum_to_1]"
  "bounds (msr_problem rf er cov) = replicate (length er) (0, 1)"
  by (simp_all add: msr_problem_def Let_def)

lemma minimize_vol_result:
  "er \<noteq> [] \<Longrightarrow> minimize (minvol_problem t er cov) = Inr r \<Longrightarrow>
   minimize_vol minimize t er cov = Inr (res_x r)"
  by (simp add: minimize_vol_def)

lemma msr_result:
  "er \<noteq> [] \<Longrightarrow> minimize (msr_problem rf er cov) = Inr r \<Longrightarrow>
   msr minimize rf er cov = Inr (res_x r)"
  by (simp add: msr_def)

lemma minimize_vol_error:
  "er \<noteq> [] \<Longrightarrow> minimize (minvol_problem t er cov) = Inl e \<Longrightarrow>
   minimize_vol minimize t er cov = Inl e"
  by (simp add: minimize_vol_def)

lemma msr_error:
  "er \<noteq> [] \<Longrightarrow> minimize (msr_problem rf er cov) = Inl e \<Longrightarrow>
   msr minimize rf er cov = Inl e"
  by (simp add: msr_def)

lemma no_progress_minvol:
  "minimize_vol no_progress t [1/20, 1/10] cov = Inr [1/2, 1/2]"
  by (simp add: minimize_vol_def no_progress_def minvol_problem_fields numeral_2_eq_2)

lemma no_progress_msr:
  "msr no_progress rf [1/20, 1/10] cov = Inr [1/2, 1/2]"
  by (simp add: msr_def no_progress_def msr_problem_fields numeral_2_eq_2)

text \<open>
  Claim C1, as the code has it. \<open>minimize_vol\<close> and \<open>msr\<close> read the field \<open>x\<close> of the
  solver's result and nothing else: when the solver returns a result that reports no
  convergence (\<open>success\<close> false), both return its final iterate to the caller as the
  weight vector, and raise nothing for it. The errors that reach the caller are an
  exception raised inside the call of the solver and, for an empty vector of expected
  returns, the \<open>ZeroDivisionError\<close> of \<open>1/n\<close>, raised before the solver is called.
\<close>

theorem unconverged_result_is_returned:
  "(er \<noteq> [] \<and> minimize (minvol_problem target_return er cov) = Inr r \<and> \<not> success r \<longrightarrow>
      minimize_vol minimize target_return er cov = Inr (res_x r)) \<and>
   (er \<noteq> [] \<and> minimize (msr_problem riskfree_rate er cov) = Inr r \<and> \<not> success r \<longrightarrow>
      msr minimize riskfree_rate er cov = Inr (res_x r)) \<and>
   (\<forall>e. minimize_vol minimize target_return er cov = Inl e \<longrightarrow>
      (er = [] \<and> e = ZeroDivisionError) \<or>
      (er \<noteq> [] \<and> minimize (minvol_problem target_return er cov) = Inl e)) \<and>
   (\<forall>e. msr minimize riskfree_rate er cov = Inl e \<longrightarrow>
      (er = [] \<and> e = ZeroDivisionError) \<or>
      (er \<noteq> [] \<and> minimize (msr_problem riskfree_rate er cov) = Inl e)) \<and>
   (er = [] \<longrightarrow> minimize_vol minimize target_return er cov = Inl ZeroDivisionError \<and>
      msr minimize riskfree_rate er cov = Inl ZeroDivisionError)"
  by (auto simp: minimize_vol_def msr_def split: sum.splits)

theorem unconverged_result_is_returned_witness:
  "[1/20, 1/10 :: real] \<noteq> [] \<and>
   \<not> success \<lparr>res_x = [1/2, 1/2], success = False,
               message = ''Inequality constraints incompatible''\<rparr> \<and>
   no_progress (minvol_problem 10 [1/20, 1/10] [[2, 0], [0, 2]]) =
     Inr \<lparr>res_x = [1/2, 1/2], success = False,
          message = ''Inequality constraints incompatible''\<rparr> \<and>
   minimize_vol no_progress 10 [1/20, 1/10] [[2, 0], [0, 2]] = Inr [1/2, 1/2] \<and>
   no_progress (msr_problem 0 [1/20, 1/10] [[0, 0], [0, 0]]) =
     Inr \<lparr>res_x = [1/2, 1/2], success = False,
          message = ''Inequality constraints incompatible''\<rparr> \<and>
   msr no_progress 0 [1/20, 1/10] [[0, 0], [0, 0]] = Inr [1/2, 1/2] \<and>
   evaluate_first (minvol_problem 10 [1/20, 1/10] [[1]]) = Inl (ValueError matmul_mismatch) \<and>
   minimize_vol evaluate_first 10 [1/20, 1/10] [[1]] = Inl (ValueError matmul_mismatch) \<and>
   minimize_vol no_progress 10 [] [] = Inl ZeroDivisionError \<and>
   msr no_progress 0 [] [] = Inl ZeroDivisionError"
proof -
  let ?r = "\<lparr>res_x = [1/2, 1/2], success = False,
             message = ''Inequality constraints incompatible''\<rparr>"
  have a: "no_progress (minvol_problem 10 [1/20, 1/10] [[2, 0], [0, 2]]) = Inr ?r"
    by (simp add: no_progress_def minvol_problem_fields numeral_2_eq_2)
  have b: "no_progress (msr_problem 0 [1/20, 1/10] [[0, 0], [0, 0]]) = Inr ?r"
    by (simp add: no_progress_def msr_problem_fields numeral_2_eq_2)
  have c: "minimize_vol evaluate_first 10 [1/20, 1/10] [[1]] =
      Inl (ValueError matmul_mismatch)"
    by (simp add: minimize_vol_def evaluate_first_def minvol_problem_fields numeral_2_eq_2
        portfolio_vol_def radicand_def vecmat_def nrows_def)
  from unconverged_result_is_returned [of "[1/20, 1/10]" no_progress 10
      "[[2, 0], [0, 2]]" ?r 0] a
    unconverged_result_is_returned [of "[1/20, 1/10]" no_progress 10
      "[[0, 0], [0, 0]]" ?r 0] b
    unconverged_result_is_returned [of "[1/20, 1/10]" evaluate_first 10 "[[1]]" ?r 0] c
    unconverged_result_is_returned [of "[]" no_progress 10 "[]" ?r 0]
  show ?thesis by simp
qed

text \<open>
  Claim C1 as stated asks for a failure and no weight vector. For the target return
  \<open>10\<close>, out of reach of expected returns \<open>0.05\<close> and \<open>0.10\<close>, and for a covariance matrix
  of zeros, a solver that gives up with \<open>success\<close> false leaves \<open>minimize_vol\<close> and \<open>msr\<close>
  returning its iterate \<open>[0.5, 0.5]\<close>.
\<close>

theorem optimization_error_counterexample:
  "success \<lparr>res_x = [1/2, 1/2], success = False,
             message = ''Inequality constraints incompatible''\<rparr> = False \<and>
   no_progress (minvol_problem 10 [1/20, 1/10] [[2, 0], [0, 2]]) =
     Inr \<lparr>res_x = [1/2, 1/2], success = False,
          message = ''Inequality constraints incompatible''\<rparr> \<and>
   minimize_vol no_progress 10 [1/20, 1/10] [[2, 0], [0, 2]] = Inr [1/2, 1/2] \<and>
   no_progress (msr_problem 0 [1/20, 1/10] [[0, 0], [0, 0]]) =
     Inr \<lparr>res_x = [1/2, 1/2], success = False,
          message = ''Inequality constraints incompatible''\<rparr> \<and>
   msr no_progress 0 [1/20, 1/10] [[0, 0], [0, 0]] = Inr [1/2, 1/2]"
  by (simp add: no_progress_minvol no_progress_msr no_progress_def minvol_problem_fields
      msr_problem_fields numeral_2_eq_2)

lemma list_all2_replicate_bounds:
  "list_all2 (\<lambda>b a. fst b \<le> a \<and> a \<le> snd b) (replicate n (lo, hi)) w \<Longrightarrow>
   length w = n \<and> list_all (\<lambda>a. lo \<le> a \<and> a \<le> hi) w"
  by (induction n arbitrary: w) (auto simp: list_all2_Cons1)

lemma honours_stop_at_guess: "honours tol (stop_at_guess tol)"
  by (auto simp: honours_def stop_at_guess_def)

text \<open>
  Claim C4, as the code has it. \<open>minimize_vol\<close> gives the solver the bounds \<open>[0, 1]\<close> on
  every weight and the two equality constraints, and returns what the solver found. So
  for a solver whose converged results meet, within \<open>tol\<close>, the problem they were found
  for: whenever the solver reports success, the weights returned are as many as the
  assets, sum to one within \<open>tol\<close>, have the target return within \<open>tol\<close>, and lie in
  \<open>[0, 1]\<close>. A result without success is returned all the same, and need not.
\<close>

theorem minimize_vol_meets_constraints:
  assumes "honours tol minimize" and "er \<noteq> []"
    and "minimize (minvol_problem target_return er cov) = Inr r" and "success r"
  shows "minimize_vol minimize target_return er cov = Inr (res_x r) \<and>
         length (res_x r) = length er \<and>
         \<bar>sum_list (res_x r) - 1\<bar> \<le> tol \<and>
         (\<exists>\<rho>. portfolio_return (res_x r) er = Inr \<rho> \<and> \<bar>\<rho> - target_return\<bar> \<le> tol) \<and>
         list_all (\<lambda>a. 0 \<le> a \<and> a \<le> 1) (res_x r)"
proof -
  let ?w = "res_x r"
  from assms(1,3,4) have f: "feasible tol (minvol_problem target_return er cov) ?w"
    by (simp add: honours_def)
  from f have b: "length ?w = length er \<and> list_all (\<lambda>a. 0 \<le> a \<and> a \<le> 1) ?w"
    using list_all2_replicate_bounds [of "length er" 0 1 ?w]
    by (simp add: feasible_def minvol_problem_fields)
  from f have s: "\<bar>sum_list ?w - 1\<bar> \<le> tol"
    by (simp add: feasible_def minvol_problem_fields weights_sum_to_1_def)
  from f obtain \<rho> where p: "portfolio_return ?w er = Inr \<rho>"
    and t: "\<bar>target_return - \<rho>\<bar> \<le> tol"
    by (auto simp: feasible_def minvol_problem_fields return_is_target_def
        split: sum.splits)
  from t have t': "\<bar>\<rho> - target_return\<bar> \<le> tol" by simp
  have "minimize_vol minimize target_return er cov = Inr ?w"
    using assms(2,3) by (simp add: minimize_vol_def)
  with b s p t' show ?thesis by blast
qed

theorem minimize_vol_meets_constraints_witness:
  "honours 0 (stop_at_guess 0) \<and> [1/20, 1/10 :: real] \<noteq> [] \<and>
   stop_at_guess 0 (minvol_problem (3/40) [1/20, 1/10] [[2, 0], [0, 2]]) =
     Inr \<lparr>res_x = [1/2, 1/2], success = True,
          message = ''Optimization terminated successfully''\<rparr> \<and>
   minimize_vol (stop_at_guess 0) (3/40) [1/20, 1/10] [[2, 0], [0, 2]] = Inr [1/2, 1/2] \<and>
   sum_list [1/2, 1/2 :: real] = 1 \<and>
   portfolio_return [1/2, 1/2] [1/20, 1/10] = Inr (3/40)"
proof -
  let ?r = "\<lparr>res_x = [1/2, 1/2], success = True,
             message = ''Optimization terminated successfully''\<rparr>"
  have p: "portfolio_return [1/2, 1/2] [1/20, 1/10] = Inr (3/40)"
    by (simp add: portfolio_return_def dot_def inner_def)
  have f: "feasible 0 (minvol_problem (3/40) [1/20, 1/10] [[2, 0], [0, 2]]) [1/2, 1/2]"
    by (simp add: feasible_def minvol_problem_fields numeral_2_eq_2 return_is_target_def
        weights_sum_to_1_def p)
  have a: "stop_at_guess 0 (minvol_problem (3/40) [1/20, 1/10] [[2, 0], [0, 2]]) = Inr ?r"
    using f by (simp add: stop_at_guess_def minvol_problem_fields numeral_2_eq_2)
  from minimize_vol_meets_constraints [of 0 "stop_at_guess 0" "[1/20, 1/10]" "3/40"
      "[[2, 0], [0, 2]]" ?r] honours_stop_at_guess [of 0] a p
  show ?thesis by simp
qed

text \<open>No weights within the bounds come near the target return \<open>10\<close> on expected
  returns \<open>0.05\<close> and \<open>0.10\<close>: whatever a solver returns there misses a constraint.\<close>

lemma target_out_of_reach:
  assumes "list_all (\<lambda>a. 0 \<le> a \<and> a \<le> 1) w"
    and "portfolio_return w [1/20, 1/10] = Inr \<rho>"
  shows "\<rho> \<le> 3/20"
proof -
  from assms(2) have "length w = 2"
    by (auto simp: portfolio_return_def dot_def split: if_splits)
  then obtain a c where w: "w = [a, c]"
    by (metis (no_types, opaque_lifting) Suc_length_conv length_0_conv numeral_2_eq_2)
  with assms show ?thesis by (auto simp: portfolio_return_def dot_def inner_def)
qed

text \<open>
  Claim C4 as stated holds of every weight vector \<open>minimize_vol\<close> returns. At the target
  \<open>10\<close> the solver that gives up leaves \<open>[0.5, 0.5]\<close>, whose return \<open>0.075\<close> is further than
  \<open>1\<close> from the target.
\<close>

theorem minimize_vol_constraints_counterexample:
  "minimize_vol no_progress 10 [1/20, 1/10] [[2, 0], [0, 2]] = Inr [1/2, 1/2] \<and>
   portfolio_return [1/2, 1/2] [1/20, 1/10] = Inr (3/40) \<and>
   \<not> \<bar>3/40 - 10\<bar> \<le> (1::real)"
  by (simp add: no_progress_minvol portfolio_return_def dot_def inner_def)

text \<open>
  Claim C5. For every \<open>n \<times> n\<close> covariance matrix, \<open>gmv\<close> is the maximum-Sharpe-ratio
  solver \<open>msr\<close> called with risk-free rate \<open>0\<close> and expected returns all one, of length
  \<open>n\<close>: the same solver, no routine of its own.
\<close>

theorem gmv_is_msr_special_case:
  assumes "has_shape n n cov"
  shows "gmv minimize cov = msr minimize 0 (replicate n 1) cov"
  using assms by (simp add: gmv_def nrows_def has_shape_def)

theorem gmv_is_msr_special_case_witness:
  "has_shape 2 2 [[2, 0], [0, 2]] \<and>
   gmv no_progress [[2, 0], [0, 2]] = msr no_progress 0 [1, 1] [[2, 0], [0, 2]] \<and>
   gmv no_progress [[2, 0], [0, 2]] = Inr [1/2, 1/2]"
proof -
  have s: "has_shape 2 2 [[2, 0], [0, 2]]" by (simp add: has_shape_def)
  have m: "msr no_progress 0 [1, 1] [[2, 0], [0, 2]] = Inr [1/2, 1/2]"
    by (simp add: msr_def no_progress_def msr_problem_fields numeral_2_eq_2)
  from gmv_is_msr_special_case [OF s, of no_progress] s m show ?thesis
    by (simp add: numeral_2_eq_2)
qed

section \<open>Candidates of zero volatility\<close>

lemma neg_sharpe_ratio_error:
  "neg_sharpe_ratio weights rf er cov = Inl e \<Longrightarrow> e = ValueError matmul_mismatch"
  by (auto simp: neg_sharpe_ratio_def portfolio_return_def portfolio_vol_def radicand_def
      vecmat_def dot_def split: if_splits sum.splits)

lemma neg_sharpe_ratio_no_zero_division:
  "neg_sharpe_ratio weights rf er cov \<noteq> Inl ZeroDivisionError"
  using neg_sharpe_ratio_error [of weights rf er cov ZeroDivisionError] by auto

lemma neg_sharpe_ratio_zero_vol:
  assumes "length weights = length er" and "portfolio_vol weights cov = Inr (Num 0)"
  shows "neg_sharpe_ratio weights rf er cov = Inr PosInf \<or>
         neg_sharpe_ratio weights rf er cov = Inr NegInf \<or>
         neg_sharpe_ratio weights rf er cov = Inr NaN"
proof -
  have "neg_sharpe_ratio weights rf er cov = Inr (fdiv (- (inner weights er - rf)) (Num 0))"
    using assms by (simp add: neg_sharpe_ratio_def portfolio_return_def dot_def)
  then show ?thesis by simp
qed

lemma list_all2_bounds_replicate:
  "list_all2 (\<lambda>b a. fst b \<le> a \<and> a \<le> snd b) (replicate n (lo, hi)) w \<longleftrightarrow>
   length w = n \<and> list_all (\<lambda>a. lo \<le> a \<and> a \<le> hi) w"
proof (induction n arbitrary: w)
  case 0
  show ?case by auto
next
  case (Suc n)
  show ?case
  proof (cases w)
    case Nil
    then show ?thesis by simp
  next
    case (Cons a w')
    with Suc [of w'] show ?thesis by auto
  qed
qed

lemma msr_problem_feasible:
  "feasible tol (msr_problem rf er cov) weights =
     (length weights = length er \<and> list_all (\<lambda>a. 0 \<le> a \<and> a \<le> 1) weights \<and>
      \<bar>sum_list weights - 1\<bar> \<le> tol)"
  by (simp add: feasible_def msr_problem_fields weights_sum_to_1_def
      list_all2_bounds_replicate)

lemma msr_zero_division:
  "msr minimize rf er cov = Inl ZeroDivisionError \<Longrightarrow>
   er = [] \<or> minimize (msr_problem rf er cov) = Inl ZeroDivisionError"
  by (cases "minimize (msr_problem rf er cov)") (simp_all add: msr_def split: if_splits)

lemma msr_empty: "msr minimize rf [] cov = Inl ZeroDivisionError"
  by (simp add: msr_def)

text \<open>
  Claim C8, as the code has it. The bounds and the constraint of \<open>msr\<close> test that the
  weights are as many as the assets, lie in \<open>[0, 1]\<close> and sum to one; they do not look
  at the volatility, so a candidate of zero volatility is not excluded by them. At such
  a candidate \<open>neg_sharpe_ratio\<close> raises no division error: the float division gives an
  infinity or \<open>nan\<close>, and that is the value of the objective. A \<open>ZeroDivisionError\<close>
  leaves \<open>msr\<close> only for an empty vector of expected returns (from \<open>1/n\<close>, before the
  search), or when the call of the solver itself raises it.
\<close>

theorem zero_volatility_candidate:
  "neg_sharpe_ratio weights riskfree_rate er cov \<noteq> Inl ZeroDivisionError \<and>
   (length weights = length er \<and> portfolio_vol weights cov = Inr (Num 0) \<longrightarrow>
      neg_sharpe_ratio weights riskfree_rate er cov = Inr PosInf \<or>
      neg_sharpe_ratio weights riskfree_rate er cov = Inr NegInf \<or>
      neg_sharpe_ratio weights riskfree_rate er cov = Inr NaN) \<and>
   feasible tol (msr_problem riskfree_rate er cov) weights =
     (length weights = length er \<and> list_all (\<lambda>a. 0 \<le> a \<and> a \<le> 1) weights \<and>
      \<bar>sum_list weights - 1\<bar> \<le> tol) \<and>
   (msr minimize riskfree_rate er cov = Inl ZeroDivisionError \<longrightarrow>
      er = [] \<or> minimize (msr_problem riskfree_rate er cov) = Inl ZeroDivisionError) \<and>
   (er = [] \<longrightarrow> msr minimize riskfree_rate er cov = Inl ZeroDivisionError)"
proof (intro conjI impI)
  show "neg_sharpe_ratio weights riskfree_rate er cov \<noteq> Inl ZeroDivisionError"
    by (rule neg_sharpe_ratio_no_zero_division)
next
  assume "length weights = length er \<and> portfolio_vol weights cov = Inr (Num 0)"
  then show "neg_sharpe_ratio weights riskfree_rate er cov = Inr PosInf \<or>
      neg_sharpe_ratio weights riskfree_rate er cov = Inr NegInf \<or>
      neg_sharpe_ratio weights riskfree_rate er cov = Inr NaN"
    using neg_sharpe_ratio_zero_vol [of weights er cov riskfree_rate] by simp
next
  show "feasible tol (msr_problem riskfree_rate er cov) weights =
     (length weights = length er \<and> list_all (\<lambda>a. 0 \<le> a \<and> a \<le> 1) weights \<and>
      \<bar>sum_list weights - 1\<bar> \<le> tol)"
    by (rule msr_problem_feasible)
next
  assume "msr minimize riskfree_rate er cov = Inl ZeroDivisionError"
  then show "er = [] \<or> minimize (msr_problem riskfree_rate er cov) = Inl ZeroDivisionError"
    by (rule msr_zero_division)
next
  assume "er = []"
  then show "msr minimize riskfree_rate er cov = Inl ZeroDivisionError"
    by (simp add: msr_empty)
qed

lemma zero_volatility_example:
  "portfolio_vol [1, 0] [[0, 0], [0, 1]] = Inr (Num 0)"
  "neg_sharpe_ratio [1, 0] 0 [1/20, 1/10] [[0, 0], [0, 1]] = Inr NegInf"
  "feasible 0 (msr_problem 0 [1/20, 1/10] [[0, 0], [0, 1]]) [1, 0]"
proof -
  show v: "portfolio_vol [1, 0] [[0, 0], [0, 1]] = Inr (Num 0)"
    by (simp add: portfolio_vol_def radicand_def vecmat_def dot_def nrows_def ncols_def
        column_def inner_def pow_half_def upt_rec)
  show "neg_sharpe_ratio [1, 0] 0 [1/20, 1/10] [[0, 0], [0, 1]] = Inr NegInf"
    by (simp add: neg_sharpe_ratio_def v portfolio_return_def dot_def inner_def)
  show "feasible 0 (msr_problem 0 [1/20, 1/10] [[0, 0], [0, 1]]) [1, 0]"
    by (simp add: msr_problem_feasible)
qed

theorem zero_volatility_candidate_witness:
  "length [1, 0 :: real] = length [1/20, 1/10 :: real] \<and>
   portfolio_vol [1, 0] [[0, 0], [0, 1]] = Inr (Num 0) \<and>
   neg_sharpe_ratio [1, 0] 0 [1/20, 1/10] [[0, 0], [0, 1]] = Inr NegInf \<and>
   feasible 0 (msr_problem 0 [1/20, 1/10] [[0, 0], [0, 1]]) [1, 0] \<and>
   msr no_progress 0 [] [] = Inl ZeroDivisionError"
proof -
  have "msr no_progress 0 [] [] = Inl ZeroDivisionError"
    using zero_volatility_candidate [of "[1, 0]" 0 "[]" "[]" 0 no_progress] by simp
  moreover have "feasible 0 (msr_problem 0 [1/20, 1/10] [[0, 0], [0, 1]]) [1, 0]"
    using zero_volatility_candidate [of "[1, 0]" 0 "[1/20, 1/10]" "[[0, 0], [0, 1]]" 0
        no_progress]
    by simp
  ultimately show ?thesis by (simp add: zero_volatility_example)
qed

text \<open>
  Claim C8 as stated has such candidates handled or rejected by the bounds and
  constraints, and no division error ever leaving \<open>msr\<close>. The weights \<open>[1, 0]\<close> meet the
  bounds and the constraint exactly and have volatility zero on the matrix
  \<open>[[0, 0], [0, 1]]\<close>, where the objective is minus infinity; and on an empty vector of
  expected returns \<open>msr\<close> raises \<open>ZeroDivisionError\<close>.
\<close>

theorem zero_volatility_counterexample:
  "feasible 0 (msr_problem 0 [1/20, 1/10] [[0, 0], [0, 1]]) [1, 0] \<and>
   portfolio_vol [1, 0] [[0, 0], [0, 1]] = Inr (Num 0) \<and>
   neg_sharpe_ratio [1, 0] 0 [1/20, 1/10] [[0, 0], [0, 1]] = Inr NegInf \<and>
   msr no_progress 0 [] [] = Inl ZeroDivisionError"
  by (simp add: zero_volatility_example msr_empty)

section \<open>Dimensions that do not fit\<close>

lemma portfolio_vol_mismatch:
  assumes "w \<noteq> []" and "has_shape r c C" and "length w \<noteq> r \<or> length w \<noteq> c"
  shows "portfolio_vol w C = Inl (ValueError matmul_mismatch)"
proof (cases "length w = r")
  case False
  with assms(2) show ?thesis
    by (simp add: portfolio_vol_def radicand_def vecmat_def nrows_def has_shape_def)
next
  case True
  with assms have "0 < r" and "length w \<noteq> c" by auto
  moreover from this assms(2) have "ncols C = c" by (simp add: ncols_has_shape)
  ultimately show ?thesis
    using True assms(2)
    by (simp add: portfolio_vol_def radicand_def vecmat_def dot_def nrows_def has_shape_def)
qed

lemma portfolio_return_same_length:
  "length w = length er \<Longrightarrow> portfolio_return w er = Inr (inner w er)"
  by (simp add: portfolio_return_def dot_def)

lemma minimize_vol_mismatch:
  assumes "propagates minimize" and "er \<noteq> []" and "has_shape r c cov"
    and "r \<noteq> length er \<or> c \<noteq> length er"
  shows "minimize_vol minimize t er cov = Inl (ValueError matmul_mismatch)"
proof -
  let ?p = "minvol_problem t er cov"
  have "objective ?p (x0 ?p) = Inl (ValueError matmul_mismatch)"
    using assms(2-4) portfolio_vol_mismatch [of "x0 ?p" r c cov]
    by (auto simp: minvol_problem_fields)
  with assms(1) have "minimize ?p = Inl (ValueError matmul_mismatch)"
    by (simp add: propagates_def)
  with assms(2) show ?thesis by (simp add: minimize_vol_def)
qed

lemma msr_mismatch:
  assumes "propagates minimize" and "er \<noteq> []" and "has_shape r c cov"
    and "r \<noteq> length er \<or> c \<noteq> length er"
  shows "msr minimize rf er cov = Inl (ValueError matmul_mismatch)"
proof -
  let ?p = "msr_problem rf er cov"
  have "portfolio_vol (x0 ?p) cov = Inl (ValueError matmul_mismatch)"
    using assms(2-4) portfolio_vol_mismatch [of "x0 ?p" r c cov]
    by (auto simp: msr_problem_fields)
  then have "objective ?p (x0 ?p) = Inl (ValueError matmul_mismatch)"
    by (simp add: msr_problem_fields neg_sharpe_ratio_def portfolio_return_same_length)
  with assms(1) have "minimize ?p = Inl (ValueError matmul_mismatch)"
    by (simp add: propagates_def)
  with assms(2) show ?thesis by (simp add: msr_def)
qed

lemma gmv_mismatch:
  assumes "propagates minimize" and "has_shape r c cov" and "0 < r" and "r \<noteq> c"
  shows "gmv minimize cov = Inl (ValueError matmul_mismatch)"
proof -
  have "length cov = r" using assms(2) by (simp add: has_shape_def)
  moreover have "msr minimize 0 (replicate r 1) cov = Inl (ValueError matmul_mismatch)"
    using assms by (intro msr_mismatch [where r = r and c = c]) auto
  ultimately show ?thesis by (simp add: gmv_def nrows_def)
qed

lemma propagates_evaluate_first: "propagates evaluate_first"
  by (simp add: propagates_def evaluate_first_def)

text \<open>
  Claim C3, as the code has it. The core has no check of dimensions. When the
  covariance matrix is not square of the dimension of the expected returns,
  \<open>portfolio_vol\<close> fails with the \<open>ValueError\<close> of numpy's matrix product, and
  \<open>minimize_vol\<close>, \<open>msr\<close> and \<open>gmv\<close> fail with that same error once the solver evaluates
  the objective at the initial guess and lets its exception through: the mismatch is
  found inside the call of the solver, not before it.
\<close>

theorem shape_mismatch_raised_by_matmul:
  assumes "propagates minimize" and "er \<noteq> []" and "has_shape r c cov"
    and "r \<noteq> length er \<or> c \<noteq> length er"
  shows "(\<forall>w. length w = length er \<longrightarrow>
            portfolio_vol w cov = Inl (ValueError matmul_mismatch)) \<and>
         minimize_vol minimize target_return er cov = Inl (ValueError matmul_mismatch) \<and>
         msr minimize riskfree_rate er cov = Inl (ValueError matmul_mismatch) \<and>
         (0 < r \<and> r \<noteq> c \<longrightarrow> gmv minimize cov = Inl (ValueError matmul_mismatch))"
proof -
  have "portfolio_vol w cov = Inl (ValueError matmul_mismatch)"
    if "length w = length er" for w
  proof -
    from that assms(2) have "w \<noteq> []" by auto
    moreover from that assms(4) have "length w \<noteq> r \<or> length w \<noteq> c" by auto
    ultimately show ?thesis using assms(3) portfolio_vol_mismatch [of w r c cov] by blast
  qed
  then show ?thesis
    using assms by (simp add: minimize_vol_mismatch msr_mismatch gmv_mismatch)
qed

theorem shape_mismatch_raised_by_matmul_witness:
  "propagates evaluate_first \<and> [1/20, 1/10 :: real] \<noteq> [] \<and> has_shape 1 2 [[1, 2]] \<and>
   (1::nat) \<noteq> length [1/20, 1/10 :: real] \<and>
   portfolio_vol [1/2, 1/2] [[1, 2]] = Inl (ValueError matmul_mismatch) \<and>
   minimize_vol evaluate_first (3/40) [1/20, 1/10] [[1, 2]] =
     Inl (ValueError matmul_mismatch) \<and>
   msr evaluate_first 0 [1/20, 1/10] [[1, 2]] = Inl (ValueError matmul_mismatch) \<and>
   gmv evaluate_first [[1, 2]] = Inl (ValueError matmul_mismatch)"
proof -
  have s: "has_shape 1 2 [[1, 2]]" by (simp add: has_shape_def)
  from shape_mismatch_raised_by_matmul [OF propagates_evaluate_first _ s,
      of "[1/20, 1/10]" "3/40" 0] s propagates_evaluate_first
  show ?thesis by simp
qed

text \<open>
  Claim C3 as stated has an error of the core's own raised before the optimisation
  begins, whatever the solver does. On expected returns of two assets and a \<open>1 \<times> 1\<close>
  covariance matrix the error is the matrix product's, it comes out of the objective
  that the solver calls, and a solver that returns without calling the objective meets
  no check at all.
\<close>

theorem shape_error_counterexample:
  "portfolio_vol [1/2, 1/2] [[1]] = Inl (ValueError matmul_mismatch) \<and>
   minimize_vol evaluate_first (3/40) [1/20, 1/10] [[1]] =
     Inl (ValueError matmul_mismatch) \<and>
   minimize_vol no_progress (3/40) [1/20, 1/10] [[1]] = Inr [1/2, 1/2]"
proof -
  have s: "has_shape 1 1 [[1]]" by (simp add: has_shape_def)
  have "portfolio_vol [1/2, 1/2] [[1]] = Inl (ValueError matmul_mismatch)"
    using portfolio_vol_mismatch [OF _ s, of "[1/2, 1/2]"] by simp
  moreover have "minimize_vol evaluate_first (3/40) [1/20, 1/10] [[1]] =
      Inl (ValueError matmul_mismatch)"
    using minimize_vol_mismatch [OF propagates_evaluate_first _ s, of "[1/20, 1/10]"]
    by simp
  ultimately show ?thesis by (simp add: no_progress_minvol)
qed

section \<open>The targets of the frontier\<close>

lemma amin_Min: "er \<noteq> [] \<Longrightarrow> amin er = Inr (Min (set er))"
  by (cases er) (simp_all add: amin_def flip: Min.set_eq_fold)

lemma amax_Max: "er \<noteq> [] \<Longrightarrow> amax er = Inr (Max (set er))"
  by (cases er) (simp_all add: amax_def flip: Max.set_eq_fold)

lemma linspace_samples:
  assumes "0 \<le> num"
  shows "linspace a b num = Inr (samples a b (nat num))"
proof -
  have "(if 1 < num \<and> int i = num - 1 then b
         else if 0 < num - 1 then a + real i * ((b - a) / real_of_int (num - 1))
         else a + real i * (b - a))
        = a + real i * ((b - a) / real (nat num - 1))" if "i < nat num" for i
  proof (cases "1 < num")
    case True
    then have r: "real (nat num - 1) = real_of_int (num - 1)" by (simp add: of_nat_diff)
    show ?thesis
    proof (cases "int i = num - 1")
      case True
      then have "real i = real_of_int (num - 1)" by (metis of_int_of_nat_eq)
      moreover from \<open>1 < num\<close> have "real_of_int (num - 1) \<noteq> 0" by simp
      ultimately have "a + real i * ((b - a) / real (nat num - 1)) = b"
        using r by simp
      with \<open>1 < num\<close> True show ?thesis by simp
    next
      case False
      with \<open>1 < num\<close> r show ?thesis by simp
    qed
  next
    case False
    with that assms have "i = 0" by linarith
    with False show ?thesis by simp
  qed
  then have "map (\<lambda>i. if 1 < num \<and> int i = num - 1 then b
         else if 0 < num - 1 then a + real i * ((b - a) / real_of_int (num - 1))
         else a + real i * (b - a)) [0..<nat num] = samples a b (nat num)"
    unfolding samples_def by (intro map_cong) auto
  with assms show ?thesis by (simp add: linspace_def Let_def)
qed

lemma length_samples: "length (samples a b n) = n"
  by (simp add: samples_def)

lemma nth_samples: "i < n \<Longrightarrow> samples a b n ! i = a + real i * ((b - a) / real (n - 1))"
  by (simp add: samples_def)

lemma samples_first: "0 < n \<Longrightarrow> samples a b n ! 0 = a"
  by (simp add: nth_samples)

lemma samples_last:
  assumes "2 \<le> n"
  shows "samples a b n ! (n - 1) = b"
proof -
  from assms have "real (n - 1) \<noteq> 0" by simp
  then have "a + real (n - 1) * ((b - a) / real (n - 1)) = b" by simp
  with assms show ?thesis by (simp add: nth_samples)
qed

lemma samples_sorted:
  assumes "a \<le> b"
  shows "sorted (samples a b n)"
proof -
  have nn: "0 \<le> (b - a) / real (n - 1)" using assms by simp
  have "samples a b n ! i \<le> samples a b n ! j" if "i \<le> j" "j < n" for i j
  proof -
    from that have ij: "real i \<le> real j" by simp
    have "real i * ((b - a) / real (n - 1)) \<le> real j * ((b - a) / real (n - 1))"
      using ij nn by (rule mult_right_mono)
    moreover from that have "samples a b n ! i = a + real i * ((b - a) / real (n - 1))"
      and "samples a b n ! j = a + real j * ((b - a) / real (n - 1))"
      by (simp_all add: nth_samples)
    ultimately show ?thesis by (simp only: add_le_cancel_left)
  qed
  then show ?thesis by (simp add: sorted_iff_nth_mono length_samples)
qed

lemma Min_le_Max: "er \<noteq> [] \<Longrightarrow> Min (set er) \<le> Max (set er)"
  by (simp add: Min_le_iff)

lemma samples_constant: "samples a a n = replicate n a"
  by (simp add: samples_def map_replicate_const)

lemma target_rs_samples:
  "er \<noteq> [] \<Longrightarrow> 0 \<le> n_points \<Longrightarrow>
   target_rs er n_points = Inr (samples (Min (set er)) (Max (set er)) (nat n_points))"
  by (simp add: target_rs_def amin_Min amax_Max linspace_samples)

lemma collect_Inr:
  "collect f as = Inr bs \<Longrightarrow>
   length bs = length as \<and> (\<forall>i<length as. f (as ! i) = Inr (bs ! i))"
proof (induction as arbitrary: bs)
  case Nil
  then show ?case by simp
next
  case (Cons a as)
  then obtain b bs' where b: "f a = Inr b" and c: "collect f as = Inr bs'"
    and bs: "bs = b # bs'"
    by (auto split: sum.splits)
  from Cons.IH [OF c] b bs show ?case by (auto simp: nth_Cons split: nat.splits)
qed

lemma collect_Inl:
  "collect f as = Inl e \<Longrightarrow> \<exists>a\<in>set as. f a = Inl e"
  by (induction as) (auto split: sum.splits)

lemma collect_all_Inr:
  "(\<And>a. a \<in> set as \<Longrightarrow> f a = Inr (g a)) \<Longrightarrow> collect f as = Inr (map g as)"
  by (induction as) auto

lemma plot_ef_lengths:
  assumes "er \<noteq> []" and "0 \<le> n_points"
    and "plot_ef minimize er cov n_points = Inr ef"
  shows "length (Returns ef) = nat n_points \<and> length (Volatility ef) = nat n_points"
proof -
  from assms(3) obtain weights rets vols
    where w: "optimal_weights minimize er cov n_points = Inr weights"
      and r: "collect (\<lambda>w. portfolio_return w er) weights = Inr rets"
      and v: "collect (\<lambda>w. portfolio_vol w cov) weights = Inr vols"
      and ef: "ef = \<lparr>Returns = rets, Volatility = vols\<rparr>"
    by (auto simp: plot_ef_def split: sum.splits)
  from w assms(1,2) have "length weights = nat n_points"
    using collect_Inr [of "\<lambda>t. minimize_vol minimize t er cov"
        "samples (Min (set er)) (Max (set er)) (nat n_points)" weights]
    by (simp add: optimal_weights_def target_rs_samples length_samples)
  with collect_Inr [OF r] collect_Inr [OF v] ef show ?thesis by simp
qed

text \<open>
  Claim C6, as the code has it. For every expected-returns vector that is not empty and
  every count \<open>n_points \<ge> 0\<close>, the builder generates exactly \<open>n_points\<close> targets with
  \<open>np.linspace\<close>; from two points on the last is the greatest expected return; while the
  span from the least to the greatest expected return is zero or an ordinary double,
  the first is the least and the targets do not decrease; and when all expected
  returns are equal, so are all targets. The minimum-volatility solver is called once for each target, in
  order, and a build that succeeds has exactly \<open>n_points\<close> frontier points, 25 for
  \<open>n_points = 25\<close>.
\<close>

theorem frontier_targets:
  assumes "er \<noteq> []" and "0 \<le> n_points"
  shows "\<exists>ts. target_rs er n_points = Inr ts \<and> length ts = nat n_points \<and>
           (2 \<le> n_points \<longrightarrow> ts ! (nat n_points - 1) = Max (set er)) \<and>
           (finite_span (Min (set er)) (Max (set er)) \<longrightarrow>
              (1 \<le> n_points \<longrightarrow> ts ! 0 = Min (set er)) \<and> sorted ts) \<and>
           (Min (set er) = Max (set er) \<longrightarrow> ts = replicate (nat n_points) (Min (set er))) \<and>
           optimal_weights minimize er cov n_points =
             collect (\<lambda>target_return. minimize_vol minimize target_return er cov) ts \<and>
           (\<forall>ws. optimal_weights minimize er cov n_points = Inr ws \<longrightarrow>
              length ws = nat n_points \<and>
              (\<forall>i<nat n_points. minimize_vol minimize (ts ! i) er cov = Inr (ws ! i))) \<and>
           (\<forall>ef. plot_ef minimize er cov n_points = Inr ef \<longrightarrow>
              length (Returns ef) = nat n_points \<and> length (Volatility ef) = nat n_points)"
proof -
  let ?ts = "samples (Min (set er)) (Max (set er)) (nat n_points)"
  have t: "target_rs er n_points = Inr ?ts" using assms by (rule target_rs_samples)
  have o: "optimal_weights minimize er cov n_points =
      collect (\<lambda>target_return. minimize_vol minimize target_return er cov) ?ts"
    by (simp add: optimal_weights_def t)
  have "length ws = nat n_points \<and>
      (\<forall>i<nat n_points. minimize_vol minimize (?ts ! i) er cov = Inr (ws ! i))"
    if "optimal_weights minimize er cov n_points = Inr ws" for ws
    using that collect_Inr [of "\<lambda>t. minimize_vol minimize t er cov" ?ts ws]
    by (simp add: o length_samples)
  moreover have "2 \<le> n_points \<longrightarrow> ?ts ! (nat n_points - 1) = Max (set er)"
    using samples_last [of "nat n_points"] by auto
  moreover have "1 \<le> n_points \<longrightarrow> ?ts ! 0 = Min (set er)"
    using samples_first [of "nat n_points"] by auto
  moreover have "sorted ?ts" using Min_le_Max [OF assms(1)] by (rule samples_sorted)
  moreover have "Min (set er) = Max (set er) \<longrightarrow> ?ts = replicate (nat n_points) (Min (set er))"
    using samples_constant [of "Min (set er)" "nat n_points"] by auto
  ultimately show ?thesis
    using t o plot_ef_lengths [OF assms]
    by (intro exI [of _ ?ts]) (simp add: length_samples)
qed

lemma minimize_vol_no_progress:
  "er \<noteq> [] \<Longrightarrow>
   minimize_vol no_progress t er cov = Inr (replicate (length er) (1 / real (length er)))"
  by (simp add: minimize_vol_def no_progress_def minvol_problem_fields)

lemma plot_ef_no_progress_example:
  "plot_ef no_progress [1/20, 1/10] [[2, 0], [0, 2]] 25 =
     Inr \<lparr>Returns = replicate 25 (3/40), Volatility = replicate 25 (Num 1)\<rparr>"
proof -
  let ?er = "[1/20, 1/10 :: real]" and ?cov = "[[2, 0], [0, 2 :: real]]"
  let ?ts = "samples (Min (set ?er)) (Max (set ?er)) (nat 25)"
  have t: "target_rs ?er 25 = Inr ?ts" by (rule target_rs_samples) simp_all
  have "collect (\<lambda>t. minimize_vol no_progress t ?er ?cov) ?ts = Inr (map (\<lambda>_. [1/2, 1/2]) ?ts)"
    by (rule collect_all_Inr) (simp add: minimize_vol_no_progress numeral_2_eq_2)
  then have w: "optimal_weights no_progress ?er ?cov 25 = Inr (replicate 25 [1/2, 1/2])"
    by (simp add: optimal_weights_def t map_replicate_const length_samples)
  have r: "collect (\<lambda>w. portfolio_return w ?er) (replicate 25 [1/2, 1/2])
      = Inr (map (\<lambda>_. 3/40) (replicate 25 [1/2, 1/2 :: real]))"
    by (rule collect_all_Inr) (simp add: portfolio_return_def dot_def inner_def)
  have q: "radicand [1/2, 1/2] ?cov = Inr 1"
    by (simp add: radicand_def vecmat_def dot_def nrows_def ncols_def column_def inner_def
        upt_rec)
  have v: "collect (\<lambda>w. portfolio_vol w ?cov) (replicate 25 [1/2, 1/2])
      = Inr (map (\<lambda>_. Num 1) (replicate 25 [1/2, 1/2 :: real]))"
    by (rule collect_all_Inr) (simp add: portfolio_vol_def q pow_half_def)
  show ?thesis by (simp add: plot_ef_def w r v)
qed

theorem frontier_targets_witness:
  "[1/20, 1/10 :: real] \<noteq> [] \<and> (0::int) \<le> 25 \<and> finite_span (1/20) (1/10) \<and>
   (\<exists>ts. target_rs [1/20, 1/10] 25 = Inr ts \<and> length ts = 25 \<and>
      ts ! 0 = 1/20 \<and> ts ! 24 = 1/10 \<and> sorted ts) \<and>
   plot_ef no_progress [1/20, 1/10] [[2, 0], [0, 2]] 25 =
     Inr \<lparr>Returns = replicate 25 (3/40), Volatility = replicate 25 (Num 1)\<rparr> \<and>
   length (replicate 25 (3/40 :: real)) = 25"
proof -
  have f: "finite_span (1/20) (1/10)" by (simp add: finite_span_def)
  have m: "Min (set [1/20, 1/10 :: real]) = 1/20" "Max (set [1/20, 1/10 :: real]) = 1/10"
    by simp_all
  have "[1/20, 1/10 :: real] \<noteq> []" and "(0::int) \<le> 25" by simp_all
  from frontier_targets [OF this, of no_progress "[[2, 0], [0, 2]]"]
  obtain ts where t: "target_rs [1/20, 1/10] 25 = Inr ts" and l: "length ts = nat 25"
    and a: "2 \<le> (25::int) \<longrightarrow> ts ! (nat 25 - 1) = Max (set [1/20, 1/10])"
    and b: "finite_span (Min (set [1/20, 1/10])) (Max (set [1/20, 1/10])) \<longrightarrow>
              (1 \<le> (25::int) \<longrightarrow> ts ! 0 = Min (set [1/20, 1/10])) \<and> sorted ts"
    by blast
  from a have a': "ts ! 24 = 1/10" by (simp add: m)
  from f have f': "finite_span (Min (set [1/20, 1/10])) (Max (set [1/20, 1/10]))"
    by (simp only: m)
  from b f' have b0: "(1 \<le> (25::int) \<longrightarrow> ts ! 0 = Min (set [1/20, 1/10])) \<and> sorted ts"
    by (rule mp)
  then have b': "ts ! 0 = 1/20" "sorted ts" by (simp_all add: m)
  from l have l': "length ts = 25" by simp
  from t l' a' b' have "\<exists>ts. target_rs [1/20, 1/10] 25 = Inr ts \<and> length ts = 25 \<and>
      ts ! 0 = 1/20 \<and> ts ! 24 = 1/10 \<and> sorted ts" by (intro exI [of _ ts] conjI)
  moreover note plot_ef_no_progress_example f
  ultimately show ?thesis by (intro conjI) simp_all
qed

lemma replicate_not_strict: "2 \<le> n \<Longrightarrow> \<not> sorted_wrt (<) (replicate n (c::real))"
  using sorted_wrt_nth_less [of "(<)" "replicate n c" 0 1] by auto

text \<open>
  Claim C6 as stated has the 25 targets strictly increasing for every expected-returns
  vector. For two assets of the same expected return \<open>0.1\<close> the 25 targets are all
  \<open>0.1\<close>.
\<close>

theorem frontier_strictly_increasing_counterexample:
  "target_rs [1/10, 1/10] 25 = Inr (replicate 25 (1/10)) \<and>
   \<not> sorted_wrt (<) (replicate 25 (1/10 :: real))"
  using target_rs_samples [of "[1/10, 1/10]" 25]
  by (simp add: samples_constant replicate_not_strict)

section \<open>The check of \<open>plot_ef2\<close>\<close>

lemma portfolio_return_error:
  "portfolio_return w er = Inl e \<Longrightarrow> e = ValueError matmul_mismatch"
  by (auto simp: portfolio_return_def dot_def split: if_splits)

lemma portfolio_vol_error:
  "portfolio_vol w cov = Inl e \<Longrightarrow> e = ValueError matmul_mismatch"
  by (auto simp: portfolio_vol_def radicand_def vecmat_def dot_def split: if_splits sum.splits)

lemma messages_differ:
  "matmul_mismatch \<noteq> only_two_assets" "negative_samples \<noteq> only_two_assets"
  by (simp_all add: matmul_mismatch_def only_two_assets_def negative_samples_def)

lemma linspace_error: "linspace a b n = Inl e \<Longrightarrow> e = ValueError negative_samples"
  by (auto simp: linspace_def Let_def split: if_splits)

lemma plot_ef2_passes_check:
  assumes "length er = 2"
  shows "plot_ef2 er cov n_points \<noteq> Inl (ValueError only_two_assets)"
proof
  assume a: "plot_ef2 er cov n_points = Inl (ValueError only_two_assets)"
  show False
  proof (cases "linspace 0 1 n_points")
    case (Inl e)
    with a assms linspace_error [OF Inl] show False
      by (simp add: plot_ef2_def messages_differ)
  next
    case (Inr ws)
    let ?weights = "map (\<lambda>w. [w, 1 - w]) ws"
    show False
    proof (cases "collect (\<lambda>w. portfolio_return w er) ?weights")
      case (Inl e)
      from collect_Inl [OF Inl] portfolio_return_error have "e = ValueError matmul_mismatch"
        by blast
      with a assms Inr Inl show False by (simp add: plot_ef2_def Let_def messages_differ)
    next
      case rets: (Inr rets)
      show False
      proof (cases "collect (\<lambda>w. portfolio_vol w cov) ?weights")
        case (Inl e)
        from collect_Inl [OF Inl] portfolio_vol_error have "e = ValueError matmul_mismatch"
          by blast
        with a assms Inr rets Inl show False
          by (simp add: plot_ef2_def Let_def messages_differ)
      next
        case vols: (Inr vols)
        with a assms Inr rets show False by (simp add: plot_ef2_def Let_def)
      qed
    qed
  qed
qed

lemma plot_ef2_mismatch:
  assumes "length er = 2" and "has_shape r c cov" and "r \<noteq> 2 \<or> c \<noteq> 2"
    and "0 < n_points"
  shows "plot_ef2 er cov n_points = Inl (ValueError matmul_mismatch)"
proof -
  let ?ws = "samples 0 1 (nat n_points)"
  let ?weights = "map (\<lambda>w. [w, 1 - w]) ?ws"
  have l: "linspace 0 1 n_points = Inr ?ws" using assms(4) by (simp add: linspace_samples)
  have r: "collect (\<lambda>w. portfolio_return w er) ?weights = Inr (map (\<lambda>w. inner w er) ?weights)"
    by (rule collect_all_Inr) (auto simp: portfolio_return_def dot_def assms(1))
  from assms(4) obtain a as where ws: "?weights = a # as" and a: "length a = 2"
    by (cases ?ws) (auto simp: samples_def upt_rec [of 0])
  from a assms(2,3) have "portfolio_vol a cov = Inl (ValueError matmul_mismatch)"
    by (intro portfolio_vol_mismatch [of a r c cov]) auto
  then have v: "collect (\<lambda>w. portfolio_vol w cov) ?weights = Inl (ValueError matmul_mismatch)"
    by (simp add: ws)
  show ?thesis using assms(1) by (simp add: plot_ef2_def Let_def l r v del: collect.simps)
qed

text \<open>
  Claim C10, as the code has it. The check of \<open>plot_ef2\<close> raises its \<open>ValueError\<close>
  exactly when the expected-returns vector does not have length 2; it looks at that
  vector only, so a covariance matrix of any other shape passes it. Such a matrix is
  rejected later, for a positive number of points, by the matrix product, whose
  exception is a \<open>ValueError\<close> too.
\<close>

theorem plot_ef2_check_inspects_er_only:
  "(plot_ef2 er cov n_points = Inl (ValueError only_two_assets)) = (length er \<noteq> 2) \<and>
   (length er = 2 \<and> has_shape r c cov \<and> (r \<noteq> 2 \<or> c \<noteq> 2) \<and> 0 < n_points \<longrightarrow>
      plot_ef2 er cov n_points = Inl (ValueError matmul_mismatch))"
proof -
  have "plot_ef2 er cov n_points = Inl (ValueError only_two_assets)" if "length er \<noteq> 2"
    using that by (simp add: plot_ef2_def)
  then show ?thesis
    using plot_ef2_passes_check [of er cov n_points] plot_ef2_mismatch [of er r c cov n_points]
    by blast
qed

theorem plot_ef2_check_inspects_er_only_witness:
  "plot_ef2 [1/20] [[1]] 25 = Inl (ValueError only_two_assets) \<and>
   length [1/20 :: real] \<noteq> 2 \<and>
   plot_ef2 [1/20, 1/10] [[2, 0], [0, 2]] 2 =
     Inr \<lparr>Returns = [1/10, 1/20], Volatility = [Num (sqrt 2), Num (sqrt 2)]\<rparr> \<and>
   length [1/20, 1/10 :: real] = 2 \<and> has_shape 1 1 [[1]] \<and> (1::nat) \<noteq> 2 \<and> (0::int) < 25 \<and>
   plot_ef2 [1/20, 1/10] [[1]] 25 = Inl (ValueError matmul_mismatch)"
proof -
  have s: "has_shape 1 1 [[1]]" by (simp add: has_shape_def)
  have l: "linspace 0 1 2 = Inr [0, 1]"
    by (simp add: linspace_def Let_def upt_rec [of 0] upt_rec [of 1] upt_rec [of "Suc 0"])
  have e: "plot_ef2 [1/20, 1/10] [[2, 0], [0, 2]] 2 =
     Inr \<lparr>Returns = [1/10, 1/20], Volatility = [Num (sqrt 2), Num (sqrt 2)]\<rparr>"
    by (simp add: plot_ef2_def l portfolio_return_def portfolio_vol_def radicand_def
        vecmat_def dot_def nrows_def ncols_def column_def inner_def pow_half_def upt_rec)
  from plot_ef2_check_inspects_er_only [of "[1/20]" "[[1]]" 25 1 1]
    plot_ef2_check_inspects_er_only [of "[1/20, 1/10]" "[[1]]" 25 1 1] s e
  show ?thesis by simp
qed

text \<open>
  Claim C10 as stated has a \<open>ValueError\<close> raised only when the expected-returns vector
  does not have length 2. With two expected returns and a \<open>1 \<times> 1\<close> covariance matrix
  \<open>plot_ef2\<close> raises a \<open>ValueError\<close> all the same, the matrix product's.
\<close>

theorem plot_ef2_value_error_counterexample:
  "length [1/20, 1/10 :: real] = 2 \<and>
   plot_ef2 [1/20, 1/10] [[1]] 25 = Inl (ValueError matmul_mismatch)"
  using plot_ef2_mismatch [of "[1/20, 1/10]" 1 1 "[[1]]" 25]
  by (simp add: has_shape_def)

end
